theory Spec2Isabelle
  imports Main
begin

section \<open>Values shared by the two services\<close>

text \<open>
  JavaScript renders a number inside a template literal in decimal. The counters, status
  codes and millisecond differences rendered here are integers far below \<open>10^21\<close>, where
  JavaScript would switch to exponent notation, so plain decimal rendering is what the
  code prints.
\<close>

definition digit_char :: "nat \<Rightarrow> char" where
  "digit_char d = ''0123456789'' ! d"

function string_of_nat :: "nat \<Rightarrow> string" where
  "string_of_nat n =
     (if n < 10 then [digit_char n]
      else string_of_nat (n div 10) @ [digit_char (n mod 10)])"
  by pat_completeness auto
termination
  by (relation "measure id") auto

declare string_of_nat.simps [simp del]

definition string_of_int :: "int \<Rightarrow> string" where
  "string_of_int i =
     (if i < 0 then CHR ''-'' # string_of_nat (nat (- i)) else string_of_nat (nat i))"

text \<open>
  \<open>a || b\<close> on an optional number: \<open>undefined\<close> and \<open>0\<close> are falsy and give the
  default.
\<close>

definition or_default :: "int option \<Rightarrow> int \<Rightarrow> int" where
  "or_default v d = (case v of None \<Rightarrow> d | Some n \<Rightarrow> if n = 0 then d else n)"

text \<open>
  The body of an error response as the API-call path reads it: \<open>response.status\<close>,
  \<open>response.statusText\<close> and \<open>response.data.error.message\<close> (absent when any link of the
  optional chain is missing).
\<close>

datatype api_response =
  ApiResponse (resp_status: int) (resp_statusText: string) (resp_error_message: "string option")

text \<open>
  What a \<open>catch\<close> clause can receive, reduced to what the two \<open>catch\<close> blocks inspect.
  \<^item> \<open>ErrorObj m r c\<close>: an instance of \<open>Error\<close> (every axios failure is one) with
    \<open>message\<close> \<open>m\<close>; an \<open>Error\<close> always has \<open>message\<close> through its prototype.
  \<^item> \<open>PlainObj m r c\<close>: any other non-null object; \<open>m\<close> is \<open>String(error.message)\<close> when
    the object has a \<open>message\<close> property, \<open>None\<close> when it has none.
  \<^item> \<open>r\<close> is the \<open>response\<close> property: \<open>None\<close> when the object has no such property,
    \<open>Some None\<close> when the property is there and holds \<open>undefined\<close> or \<open>null\<close>,
    \<open>Some (Some resp)\<close> when it holds a response.
  \<^item> \<open>c\<close> is the \<open>code\<close> property when it is a string.
  \<^item> \<open>ThrownString s\<close>: a thrown string.
  \<^item> \<open>ThrownOther\<close>: \<open>null\<close>, \<open>undefined\<close>, a number, a boolean: neither an object
    nor a string.
\<close>

datatype thrown =
    ErrorObj string "api_response option option" "string option"
  | PlainObj "string option" "api_response option option" "string option"
  | ThrownString string
  | ThrownOther

text \<open>Everything the code does to the outside world, in the order it does it.\<close>

datatype http_method = GET | POST | PATCH

datatype effect =
    HttpGet string int
  | ApiRequest http_method string "string option" string
  | ConsoleLog string
  | ConsoleError string
  | Sleep int
  | MkDir string
  | AppendFile string string
  | SetInterval int
  | ClearInterval

fun is_request :: "effect \<Rightarrow> bool" where
  "is_request (HttpGet _ _) = True"
| "is_request (ApiRequest _ _ _ _) = True"
| "is_request _ = False"

fun is_sleep :: "effect \<Rightarrow> bool" where
  "is_sleep (Sleep _) = True"
| "is_sleep _ = False"

definition attempts :: "effect list \<Rightarrow> nat" where
  "attempts tr = length (filter is_request tr)"

definition sleeps :: "effect list \<Rightarrow> effect list" where
  "sleeps tr = filter is_sleep tr"

section \<open>healthcheck.service.ts: the prober\<close>

record HealthCheckResult =
  timestamp :: string
  url :: string
  status :: int
  healthy :: bool
  responseTime :: "string option"
  error :: "string option"

record DeploymentHealth =
  expectedStatus :: int
  timeoutMs :: "int option"
  checkIntervalMs :: "int option"

definition MAX_RETRIES :: int where
  "MAX_RETRIES = 3"

definition RETRY_DELAY_MS :: int where
  "RETRY_DELAY_MS = 1000"

text \<open>
  One invocation of \<open>checkDeploymentHealth\<close> reads the clock for \<open>timestamp\<close>, reads it
  again for \<open>startTime\<close>, and awaits axios, which either resolves with a response (any
  status, since \<open>validateStatus\<close> accepts all; the clock is then read a third time) or
  throws. The environment of a probe gives these readings for each invocation in turn.
\<close>

datatype http_outcome = Responded int int | Threw thrown

record attempt =
  iso_now :: string
  start_ms :: int
  outcome :: http_outcome

text \<open>\<open>error && typeof error === 'object' && 'message' in error\<close>\<close>

fun is_object_with_message :: "thrown \<Rightarrow> bool" where
  "is_object_with_message (ErrorObj m r c) = True"
| "is_object_with_message (PlainObj m r c) = (m \<noteq> None)"
| "is_object_with_message (ThrownString s) = False"
| "is_object_with_message ThrownOther = False"

text \<open>\<open>String(error.message)\<close>, evaluated only under the test above.\<close>

fun message_string :: "thrown \<Rightarrow> string" where
  "message_string (ErrorObj m r c) = m"
| "message_string (PlainObj (Some m) r c) = m"
| "message_string _ = ''undefined''"

text \<open>The \<open>error\<close> field of the synthetic result (the chain of conditionals).\<close>

fun error_text :: "thrown \<Rightarrow> string" where
  "error_text (ErrorObj m r c) = m"
| "error_text (ThrownString s) = s"
| "error_text (PlainObj (Some m) r c) = m"
| "error_text _ = ''Unknown error''"

definition retry_notice :: "int \<Rightarrow> thrown \<Rightarrow> string" where
  "retry_notice retryCount e =
     ''Health check attempt failed ('' @ string_of_int (retryCount + 1) @ ''/'' @
     string_of_int MAX_RETRIES @ ''), retrying... (Error: '' @ message_string e @ '')''"

text \<open>
  \<open>retryCount\<close> is a JavaScript number. Of the numbers, the model has the integers
  (\<open>Num n\<close>, for an \<open>n\<close> that is a double), the two infinities and \<open>NaN\<close>. A number with a
  fraction is below \<open>2^52\<close> in magnitude, where adding 1 always advances; these are left
  out.

  \<open>retryCount + 1\<close> is IEEE addition: exact when the sum is below \<open>2^53\<close> in magnitude,
  otherwise rounded to the nearest double, which is a multiple of
  \<open>ulp = 2^(bit length - 53)\<close>, a tie going to the even multiple. So
  \<open>-Infinity + 1\<close> is \<open>-Infinity\<close> and \<open>-2^54 + 1\<close> is \<open>-2^54\<close>. A comparison with \<open>NaN\<close> is
  false. A template literal prints an integer below \<open>10^21\<close> in magnitude in decimal.
\<close>

datatype js_number = Num int | NegInfinity | PosInfinity | NaN

function bit_length :: "int \<Rightarrow> nat" where
  "bit_length a = (if a \<le> 0 then 0 else Suc (bit_length (a div 2)))"
  by pat_completeness auto
termination
  by (relation "measure nat") auto

declare bit_length.simps [simp del]

definition round_to_double :: "int \<Rightarrow> int" where
  "round_to_double x =
     (let a = \<bar>x\<bar> in
      if a < 2 ^ 53 then x
      else
        (let ulp = 2 ^ (bit_length a - 53);
             q = a div ulp;
             r = a mod ulp;
             m = (if 2 * r < ulp then q
                  else if ulp < 2 * r then q + 1
                  else if even q then q else q + 1)
         in sgn x * (m * ulp)))"

fun js_add1 :: "js_number \<Rightarrow> js_number" where
  "js_add1 (Num n) = Num (round_to_double (n + 1))"
| "js_add1 NegInfinity = NegInfinity"
| "js_add1 PosInfinity = PosInfinity"
| "js_add1 NaN = NaN"

fun js_less :: "js_number \<Rightarrow> int \<Rightarrow> bool" where
  "js_less (Num n) b = (n < b)"
| "js_less NegInfinity b = True"
| "js_less PosInfinity b = False"
| "js_less NaN b = False"

fun js_number_string :: "js_number \<Rightarrow> string" where
  "js_number_string (Num n) = string_of_int n"
| "js_number_string NegInfinity = ''-Infinity''"
| "js_number_string PosInfinity = ''Infinity''"
| "js_number_string NaN = ''NaN''"

definition js_retry_notice :: "js_number \<Rightarrow> thrown \<Rightarrow> string" where
  "js_retry_notice retryCount e =
     ''Health check attempt failed ('' @ js_number_string (js_add1 retryCount) @ ''/'' @
     string_of_int MAX_RETRIES @ ''), retrying... (Error: '' @ message_string e @ '')''"

text \<open>
  \<open>checkDeploymentHealth\<close> for any retry count. The value is the promise that the function
  returns: \<open>Some (Inr r, tr)\<close> when it resolves with the result \<open>r\<close>, \<open>Some (Inl e, tr)\<close>
  when it rejects with the thrown value \<open>e\<close>, in both cases after the effects \<open>tr\<close>, and
  \<open>None\<close> when it never settles. The \<open>try\<close> block is the first \<open>case\<close>; its \<open>Threw\<close> branch
  is the \<open>catch\<close> block.
\<close>

partial_function (option) checkDeploymentHealth_js ::
  "string \<Rightarrow> DeploymentHealth \<Rightarrow> js_number \<Rightarrow> (nat \<Rightarrow> attempt) \<Rightarrow>
   ((thrown + HealthCheckResult) \<times> effect list) option"
where
  "checkDeploymentHealth_js u config retryCount env =
     (case outcome (env 0) of
        Responded st end_ms \<Rightarrow>
          Some (Inr \<lparr>timestamp = iso_now (env 0), url = u, status = st,
                      healthy = (st = expectedStatus config),
                      responseTime = Some (string_of_int (end_ms - start_ms (env 0)) @ ''ms''),
                      error = None\<rparr>,
                [HttpGet u (or_default (timeoutMs config) 5000)])
      | Threw e \<Rightarrow>
          if is_object_with_message e \<and> js_less retryCount MAX_RETRIES then
            Option.bind (checkDeploymentHealth_js u config (js_add1 retryCount) (\<lambda>k. env (Suc k)))
              (\<lambda>(res, tr).
                 Some (res,
                       HttpGet u (or_default (timeoutMs config) 5000) #
                       ConsoleLog (js_retry_notice retryCount e) #
                       Sleep RETRY_DELAY_MS # tr))
          else
            Some (Inr \<lparr>timestamp = iso_now (env 0), url = u, status = 503, healthy = False,
                        responseTime = None, error = Some (error_text e)\<rparr>,
                  [HttpGet u (or_default (timeoutMs config) 5000)]))"

text \<open>
  The same function for a retry count that is an integer from \<open>-2^53\<close> up. The callers
  pass no retry count, so the counts of the program itself are 0 to 3. On these counts
  every \<open>retryCount + 1\<close> is exact and the recursion ends, so the function is total, and
  \<open>js_agrees_on_exact_counts\<close> below proves that it is \<open>checkDeploymentHealth_js\<close> there.
  The pair is the settled promise and the effects, \<open>Inr\<close> for resolved and \<open>Inl\<close> for
  rejected.
\<close>

function checkDeploymentHealth ::
  "string \<Rightarrow> DeploymentHealth \<Rightarrow> int \<Rightarrow> (nat \<Rightarrow> attempt) \<Rightarrow> (thrown + HealthCheckResult) \<times> effect list"
where
  "checkDeploymentHealth u config retryCount env =
     (case outcome (env 0) of
        Responded st end_ms \<Rightarrow>
          (Inr \<lparr>timestamp = iso_now (env 0), url = u, status = st,
                healthy = (st = expectedStatus config),
                responseTime = Some (string_of_int (end_ms - start_ms (env 0)) @ ''ms''),
                error = None\<rparr>,
           [HttpGet u (or_default (timeoutMs config) 5000)])
      | Threw e \<Rightarrow>
          if is_object_with_message e \<and> retryCount < MAX_RETRIES then
            (case checkDeploymentHealth u config (retryCount + 1) (\<lambda>k. env (Suc k)) of
               (res, tr) \<Rightarrow>
                 (res,
                  HttpGet u (or_default (timeoutMs config) 5000) #
                  ConsoleLog (retry_notice retryCount e) #
                  Sleep RETRY_DELAY_MS # tr))
          else
            (Inr \<lparr>timestamp = iso_now (env 0), url = u, status = 503, healthy = False,
                  responseTime = None, error = Some (error_text e)\<rparr>,
             [HttpGet u (or_default (timeoutMs config) 5000)]))"
  by pat_completeness auto
termination
  by (relation "measure (\<lambda>(u, config, retryCount, env). nat (MAX_RETRIES - retryCount))") auto

declare checkDeploymentHealth.simps [simp del]

text \<open>
  The result object as JavaScript sees it: the properties that the object literal of the
  \<open>try\<close> block, respectively of the \<open>catch\<close> block, sets, under the names the interface
  \<open>HealthCheckResult\<close> declares. An optional property that was not set is not in the list.
\<close>

datatype js_value = JString string | JNumber int | JBoolean bool

definition properties :: "HealthCheckResult \<Rightarrow> (string \<times> js_value) list" where
  "properties r =
     [(''timestamp'', JString (timestamp r)), (''url'', JString (url r)),
      (''status'', JNumber (status r)), (''healthy'', JBoolean (healthy r))] @
     (case responseTime r of None \<Rightarrow> [] | Some t \<Rightarrow> [(''responseTime'', JString t)]) @
     (case error r of None \<Rightarrow> [] | Some e \<Rightarrow> [(''error'', JString e)])"

definition property_of :: "string \<Rightarrow> thrown + HealthCheckResult \<Rightarrow> js_value option" where
  "property_of name res =
     (case res of Inl e \<Rightarrow> None | Inr r \<Rightarrow> map_of (properties r) name)"

section \<open>healthcheck.service.ts: the monitor\<close>

text \<open>The non-ASCII characters of the messages, as the UTF-8 bytes written out.\<close>

definition check_mark :: string where
  "check_mark = [CHR 0xE2, CHR 0x9C, CHR 0x85]"

definition cross_mark :: string where
  "cross_mark = [CHR 0xE2, CHR 0x9D, CHR 0x8C]"

definition warning_sign :: string where
  "warning_sign = [CHR 0xE2, CHR 0x9A, CHR 0xA0, CHR 0xEF, CHR 0xB8, CHR 0x8F]"

definition magnifier :: string where
  "magnifier = [CHR 0xF0, CHR 0x9F, CHR 0x94, CHR 0x8D]"

definition stop_sign :: string where
  "stop_sign = [CHR 0xF0, CHR 0x9F, CHR 0x9B, CHR 0x91]"

text \<open>
  The variables that the closures of one \<open>setupHealthMonitoring\<close> call share: the two
  arguments, the two counters, the log file path and the interval handle
  (\<open>interval_armed\<close> until \<open>clearInterval\<close>). \<open>in_flight\<close> counts the probes whose promise
  is still pending, and \<open>emitted\<close> collects the effects of the session in order.
\<close>

record session =
  sess_url :: string
  sess_config :: DeploymentHealth
  healthyStreak :: int
  unhealthyStreak :: int
  logFile :: string
  interval_armed :: bool
  in_flight :: nat
  emitted :: "effect list"

definition passed_notice :: "HealthCheckResult \<Rightarrow> string" where
  "passed_notice health =
     check_mark @ '' Health check passed for '' @ url health @ '' (Status: '' @
     string_of_int (status health) @ '')''"

definition stable_notice :: "int \<Rightarrow> string" where
  "stable_notice n =
     check_mark @ '' Health check stable: '' @ string_of_int n @
     '' consecutive successful checks''"

definition failed_notice :: "HealthCheckResult \<Rightarrow> string" where
  "failed_notice health =
     cross_mark @ '' Health check failed for '' @ url health @ '' (Status: '' @
     string_of_int (status health) @ '')'' @
     (case error health of None \<Rightarrow> [] | Some e \<Rightarrow> if e = [] then [] else '': '' @ e)"

definition alert_notice :: "int \<Rightarrow> string" where
  "alert_notice n =
     warning_sign @ '' ALERT: '' @ string_of_int n @ '' consecutive health check failures!''"

definition logMessage :: "HealthCheckResult \<Rightarrow> string" where
  "logMessage health =
     ''['' @ timestamp health @ ''] ['' @ (if healthy health then ''INFO'' else ''ERROR'') @
     ''] '' @ url health @ '' - Status: '' @ string_of_int (status health) @ '' '' @
     (if healthy health then check_mark else cross_mark) @ '' '' @
     (case responseTime health of None \<Rightarrow> [] | Some t \<Rightarrow> t) @ '' '' @
     (case error health of None \<Rightarrow> [] | Some e \<Rightarrow> if e = [] then [] else ''- Error: '' @ e)"

text \<open>
  \<open>logHealthCheck\<close>: the updated variables and what this call prints and appends.
  \<open>x % 5 === 0\<close> holds exactly when 5 divides \<open>x\<close>, which is \<open>x mod 5 = 0\<close>.
\<close>

definition logHealthCheck :: "session \<Rightarrow> HealthCheckResult \<Rightarrow> session \<times> effect list" where
  "logHealthCheck s health =
     (let s1 = (if healthy health
                then s\<lparr>healthyStreak := healthyStreak s + 1, unhealthyStreak := 0\<rparr>
                else s\<lparr>unhealthyStreak := unhealthyStreak s + 1, healthyStreak := 0\<rparr>);
          printed =
            (if healthy health then
               (if healthyStreak s1 = 1 then [ConsoleLog (passed_notice health)]
                else if healthyStreak s1 mod 5 = 0 then [ConsoleLog (stable_notice (healthyStreak s1))]
                else [])
             else
               ConsoleError (failed_notice health) #
               (if unhealthyStreak s1 \<ge> 3 then [ConsoleError (alert_notice (unhealthyStreak s1))]
                else []))
      in (s1, printed @ [AppendFile (logFile s1) (logMessage health @ [CHR 0x0A])]))"

text \<open>
  \<open>setupHealthMonitoring\<close> up to its \<open>return\<close>. The clock reading, the working directory
  (taken without a trailing separator, so that \<open>path.join\<close> is concatenation with
  \<open>/\<close>) and whether the log directory exists are inputs. The initial probe is started,
  as is the interval timer; both finish later, as events.
\<close>

definition setupHealthMonitoring ::
  "string \<Rightarrow> DeploymentHealth \<Rightarrow> string \<Rightarrow> string \<Rightarrow> bool \<Rightarrow> session" where
  "setupHealthMonitoring u config now cwd logDirExists =
     (let logDir = cwd @ ''/logs'';
          file = logDir @ ''/health-'' @
                 map (\<lambda>ch. if ch = CHR '':'' then CHR ''-'' else ch) now @ ''.log''
      in \<lparr>sess_url = u, sess_config = config, healthyStreak = 0, unhealthyStreak = 0,
          logFile = file, interval_armed = True, in_flight = 1,
          emitted =
            (if logDirExists then [] else [MkDir logDir]) @
            [ConsoleLog (magnifier @ '' Health monitoring started for '' @ u),
             ConsoleLog (''Health check interval: '' @
                         string_of_int (or_default (checkIntervalMs config) 30000) @ ''ms''),
             ConsoleLog (''Health logs will be stored in: '' @ file),
             SetInterval (or_default (checkIntervalMs config) 30000)]\<rparr>)"

text \<open>The function that \<open>setupHealthMonitoring\<close> returns.\<close>

definition cancel :: "session \<Rightarrow> session" where
  "cancel s =
     s\<lparr>interval_armed := False,
       emitted := emitted s @
         [ClearInterval, ConsoleLog (stop_sign @ '' Health monitoring stopped for '' @ sess_url s)]\<rparr>"

text \<open>
  What the event loop can do to a session after \<open>setupHealthMonitoring\<close> has returned:
  \<^item> \<open>TimerFires\<close>: the interval elapses; an armed interval runs its callback, which
    starts a probe. A cleared interval never runs its callback.
  \<^item> \<open>ProbeCompletes env\<close>: the promise of a pending probe settles, the probe having met
    the environment \<open>env\<close>; the continuation (\<open>.then(logHealthCheck)\<close> for the initial
    probe, the rest of the callback for the others) runs \<open>logHealthCheck\<close> on the result.
    A rejected promise would skip the continuation. The probe's own effects are recorded
    at this point.
  \<^item> \<open>Cancel\<close>: the caller runs the returned function.
\<close>

datatype event = TimerFires | ProbeCompletes "nat \<Rightarrow> attempt" | Cancel

fun step :: "session \<Rightarrow> event \<Rightarrow> session" where
  "step s TimerFires =
     (if interval_armed s then s\<lparr>in_flight := in_flight s + 1\<rparr> else s)"
| "step s (ProbeCompletes env) =
     (if in_flight s = 0 then s
      else
        (case checkDeploymentHealth (sess_url s) (sess_config s) 0 env of
           (Inl e, tr) \<Rightarrow> s\<lparr>in_flight := in_flight s - 1, emitted := emitted s @ tr\<rparr>
         | (Inr health, tr) \<Rightarrow>
             (case logHealthCheck (s\<lparr>in_flight := in_flight s - 1, emitted := emitted s @ tr\<rparr>) health of
                (s1, out) \<Rightarrow> s1\<lparr>emitted := emitted s1 @ out\<rparr>)))"
| "step s Cancel = cancel s"

definition run :: "session \<Rightarrow> event list \<Rightarrow> session" where
  "run s evs = foldl step s evs"



definition process_results :: "session \<Rightarrow> HealthCheckResult list \<Rightarrow> session" where
  "process_results s hs = foldl (\<lambda>s1 h. fst (logHealthCheck s1 h)) s hs"

section \<open>vercel.service.ts: the API call\<close>

definition API_MAX_RETRIES :: int where
  "API_MAX_RETRIES = 3"

definition API_RETRY_DELAY_MS :: int where
  "API_RETRY_DELAY_MS = 2000"

text \<open>\<open>error.response\<close> and \<open>error.code\<close>; a value that is not an object has neither.\<close>

fun response_prop :: "thrown \<Rightarrow> api_response option option" where
  "response_prop (ErrorObj m r c) = r"
| "response_prop (PlainObj m r c) = r"
| "response_prop _ = None"

fun code_prop :: "thrown \<Rightarrow> string option" where
  "code_prop (ErrorObj m r c) = c"
| "code_prop (PlainObj m r c) = c"
| "code_prop _ = None"

text \<open>\<open>error.response?.status >= 500\<close>: a missing response gives \<open>undefined >= 500\<close>, false.\<close>

definition status_ge_500 :: "thrown \<Rightarrow> bool" where
  "status_ge_500 e =
     (case response_prop e of Some (Some resp) \<Rightarrow> resp_status resp \<ge> 500 | _ \<Rightarrow> False)"

text \<open>The message of the \<open>Error\<close> that the \<open>catch\<close> block throws in the end.\<close>

definition api_error_message :: "thrown \<Rightarrow> string" where
  "api_error_message e =
     (case response_prop e of
        Some (Some resp) \<Rightarrow>
          (let apiError = (case resp_error_message resp of
                             None \<Rightarrow> resp_statusText resp
                           | Some m \<Rightarrow> if m = [] then resp_statusText resp else m)
           in if apiError = [] then error_text e
              else ''Vercel API error ('' @
                   (if resp_status resp = 0 then ''network error''
                    else string_of_int (resp_status resp)) @ ''): '' @ apiError)
      | _ \<Rightarrow> error_text e)"

datatype api_outcome = ApiOk string | ApiThrew thrown

text \<open>
  \<open>makeVercelApiCall\<close>. \<open>token\<close> is \<open>process.env.VERCEL_TOKEN\<close> (unset or empty is falsy);
  request payload and response data are taken as serialised text. \<open>Inl\<close> is the rejected
  promise. The callers pass no \<open>retryCount\<close>; it is taken as an integer count.
\<close>

definition token_missing :: thrown where
  "token_missing =
     ErrorObj ''VERCEL_TOKEN environment variable is not set. Please set it before deploying.''
       None None"

function makeVercelApiCall ::
  "string option \<Rightarrow> string \<Rightarrow> http_method \<Rightarrow> string option \<Rightarrow> int \<Rightarrow> (nat \<Rightarrow> api_outcome) \<Rightarrow>
   (thrown + string) \<times> effect list"
where
  "makeVercelApiCall token u method data retryCount env =
     (case token of
        None \<Rightarrow> (Inl token_missing, [])
      | Some tok \<Rightarrow>
          if tok = [] then (Inl token_missing, [])
          else
            (case env 0 of
               ApiOk d \<Rightarrow> (Inr d, [ApiRequest method u data tok])
             | ApiThrew e \<Rightarrow>
                 if response_prop e \<noteq> None \<and> retryCount < API_MAX_RETRIES \<and>
                    (status_ge_500 e \<or> code_prop e = Some ''ECONNRESET'') then
                   (case makeVercelApiCall token u method data (retryCount + 1) (\<lambda>k. env (Suc k)) of
                      (res, tr) \<Rightarrow>
                        (res,
                         ApiRequest method u data tok #
                         ConsoleLog (''API call failed, retrying ('' @ string_of_int (retryCount + 1) @
                                     ''/'' @ string_of_int API_MAX_RETRIES @ '')...'') #
                         Sleep API_RETRY_DELAY_MS # tr))
                 else
                   (Inl (ErrorObj (api_error_message e) None None),
                    [ApiRequest method u data tok])))"
  by pat_completeness auto
termination
  by (relation "measure (\<lambda>(token, u, method, data, retryCount, env). nat (API_MAX_RETRIES - retryCount))")
     auto

declare makeVercelApiCall.simps [simp del]

section \<open>Auxiliary notions for the statements\<close>

text \<open>
  \<open>timed\<close> keeps the requests and the waits of a trace; \<open>alternating n g s\<close> is
  \<open>n + 1\<close> requests \<open>g\<close> with one wait \<open>s\<close> between each two. \<open>response_result\<close> and
  \<open>synthetic_result\<close> name the two object literals of \<open>checkDeploymentHealth\<close>, and
  \<open>probe_ends_at u c rc env n res\<close> says that the invocations \<open>0..n-1\<close> threw and were
  retried and that invocation \<open>n\<close> produced \<open>res\<close>.
\<close>

fun alternating :: "nat \<Rightarrow> effect \<Rightarrow> effect \<Rightarrow> effect list" where
  "alternating 0 g s = [g]"
| "alternating (Suc n) g s = g # s # alternating n g s"

definition timed :: "effect list \<Rightarrow> effect list" where
  "timed tr = filter (\<lambda>x. is_request x \<or> is_sleep x) tr"

definition response_result :: "string \<Rightarrow> DeploymentHealth \<Rightarrow> attempt \<Rightarrow> int \<Rightarrow> int \<Rightarrow> HealthCheckResult" where
  "response_result u c a st t =
     \<lparr>timestamp = iso_now a, url = u, status = st, healthy = (st = expectedStatus c),
      responseTime = Some (string_of_int (t - start_ms a) @ ''ms''), error = None\<rparr>"

definition synthetic_result :: "string \<Rightarrow> attempt \<Rightarrow> thrown \<Rightarrow> HealthCheckResult" where
  "synthetic_result u a e =
     \<lparr>timestamp = iso_now a, url = u, status = 503, healthy = False,
      responseTime = None, error = Some (error_text e)\<rparr>"

definition probe_ends_at ::
  "string \<Rightarrow> DeploymentHealth \<Rightarrow> int \<Rightarrow> (nat \<Rightarrow> attempt) \<Rightarrow> nat \<Rightarrow> (thrown + HealthCheckResult) \<Rightarrow> bool" where
  "probe_ends_at u c rc env n res =
     ((\<forall>k<n. \<exists>e. outcome (env k) = Threw e \<and> is_object_with_message e \<and> rc + int k < MAX_RETRIES) \<and>
      (case outcome (env n) of
         Responded st t \<Rightarrow> res = Inr (response_result u c (env n) st t)
       | Threw e \<Rightarrow> \<not> (is_object_with_message e \<and> rc + int n < MAX_RETRIES) \<and>
                    res = Inr (synthetic_result u (env n) e)))"

text \<open>\<open>console_of\<close> keeps what a trace prints on the console.\<close>

fun is_console :: "effect \<Rightarrow> bool" where
  "is_console (ConsoleLog m) = True"
| "is_console (ConsoleError m) = True"
| "is_console _ = False"

definition console_of :: "effect list \<Rightarrow> effect list" where
  "console_of out = filter is_console out"

text \<open>
  The retry predicate of the API-call path in the specification's words: the error
  carries a response status of at least 500 or the code \<open>ECONNRESET\<close>.
\<close>

definition retryable_per_spec :: "thrown \<Rightarrow> bool" where
  "retryable_per_spec e = (status_ge_500 e \<or> code_prop e = Some ''ECONNRESET'')"

text \<open>
  \<open>retry_count_exact\<close> holds of the retry counts from which the count reaches
  \<open>MAX_RETRIES\<close>: the integers from \<open>-2^53\<close> up, and \<open>+Infinity\<close> and \<open>NaN\<close>, which are
  never below it. \<open>never_advances rc env\<close> holds when adding 1 leaves \<open>rc\<close> as it is, below
  \<open>MAX_RETRIES\<close>, and every request of \<open>env\<close> throws an object with a message.
\<close>

definition retry_count_exact :: "js_number \<Rightarrow> bool" where
  "retry_count_exact rc =
     (case rc of Num n \<Rightarrow> - (2 ^ 53) \<le> n | NegInfinity \<Rightarrow> False
      | PosInfinity \<Rightarrow> True | NaN \<Rightarrow> True)"

definition never_advances :: "js_number \<Rightarrow> (nat \<Rightarrow> attempt) \<Rightarrow> bool" where
  "never_advances rc env =
     (js_add1 rc = rc \<and> js_less rc MAX_RETRIES \<and>
      (\<forall>k. \<exists>e. outcome (env k) = Threw e \<and> is_object_with_message e))"

section \<open>Concrete inputs\<close>

text \<open>
  A configuration as the command line builds it, a target that refuses every connection,
  a target that answers with a given status after 12 ms, and a request that fails with a
  thrown string.
\<close>

definition example_config :: DeploymentHealth where
  "example_config = \<lparr>expectedStatus = 200, timeoutMs = Some 5000, checkIntervalMs = Some 30000\<rparr>"

definition refused :: thrown where
  "refused = ErrorObj ''connect ECONNREFUSED 127.0.0.1:3000'' None (Some ''ECONNREFUSED'')"

definition always_refused :: "nat \<Rightarrow> attempt" where
  "always_refused k =
     \<lparr>iso_now = ''2024-01-01T00:00:00.000Z'', start_ms = 1000, outcome = Threw refused\<rparr>"

definition answers :: "int \<Rightarrow> nat \<Rightarrow> attempt" where
  "answers st k =
     \<lparr>iso_now = ''2024-01-01T00:00:00.000Z'', start_ms = 1000, outcome = Responded st 1012\<rparr>"

definition throws_string :: "nat \<Rightarrow> attempt" where
  "throws_string k =
     \<lparr>iso_now = ''2024-01-01T00:00:00.000Z'', start_ms = 1000,
      outcome = Threw (ThrownString ''boom'')\<rparr>"

text \<open>
  A session right after \<open>setupHealthMonitoring\<close> has returned, a healthy result and an
  unhealthy one.
\<close>

definition fresh_session :: session where
  "fresh_session =
     setupHealthMonitoring ''http://localhost:3000'' example_config
       ''2024-01-01T00:00:00.000Z'' ''/srv/app'' False"

definition ok_result :: HealthCheckResult where
  "ok_result =
     \<lparr>timestamp = ''2024-01-01T00:00:00.000Z'', url = ''http://localhost:3000'', status = 200,
      healthy = True, responseTime = Some ''12ms'', error = None\<rparr>"

definition bad_result :: HealthCheckResult where
  "bad_result =
     \<lparr>timestamp = ''2024-01-01T00:00:30.000Z'', url = ''http://localhost:3000'', status = 500,
      healthy = False, responseTime = Some ''12ms'', error = None\<rparr>"

text \<open>
  A connection reset that fails an API call, as axios 1.x reports it, an \<open>Error\<close> with the
  code \<open>ECONNRESET\<close> and no \<open>response\<close> property, and as axios 0.x reports it, with a
  \<open>response\<close> property that is \<open>undefined\<close>.
\<close>

definition reset_error :: thrown where
  "reset_error = ErrorObj ''socket hang up'' None (Some ''ECONNRESET'')"

definition always_reset :: "nat \<Rightarrow> api_outcome" where
  "always_reset k = ApiThrew reset_error"

definition reset_error_undefined_response :: thrown where
  "reset_error_undefined_response = ErrorObj ''socket hang up'' (Some None) (Some ''ECONNRESET'')"

definition always_reset_undefined_response :: "nat \<Rightarrow> api_outcome" where
  "always_reset_undefined_response k = ApiThrew reset_error_undefined_response"

section \<open>The shape of a probe\<close>

lemma probe_responded:
  "outcome (env 0) = Responded st t \<Longrightarrow>
   checkDeploymentHealth u c rc env =
     (Inr (response_result u c (env 0) st t), [HttpGet u (or_default (timeoutMs c) 5000)])"
  by (subst checkDeploymentHealth.simps) (simp add: response_result_def)

lemma probe_retry:
  "outcome (env 0) = Threw e \<Longrightarrow> is_object_with_message e \<Longrightarrow> rc < MAX_RETRIES \<Longrightarrow>
   checkDeploymentHealth u c rc env =
     (fst (checkDeploymentHealth u c (rc + 1) (\<lambda>k. env (Suc k))),
      HttpGet u (or_default (timeoutMs c) 5000) # ConsoleLog (retry_notice rc e) #
      Sleep RETRY_DELAY_MS # snd (checkDeploymentHealth u c (rc + 1) (\<lambda>k. env (Suc k))))"
  by (subst checkDeploymentHealth.simps) (simp split: prod.splits)

lemma probe_terminal:
  "outcome (env 0) = Threw e \<Longrightarrow> \<not> (is_object_with_message e \<and> rc < MAX_RETRIES) \<Longrightarrow>
   checkDeploymentHealth u c rc env =
     (Inr (synthetic_result u (env 0) e), [HttpGet u (or_default (timeoutMs c) 5000)])"
  by (subst checkDeploymentHealth.simps) (auto simp: synthetic_result_def)

lemma probe_ends_at_Suc:
  assumes "outcome (env 0) = Threw e" "is_object_with_message e" "rc < MAX_RETRIES"
    and "probe_ends_at u c (rc + 1) (\<lambda>k. env (Suc k)) n res"
  shows "probe_ends_at u c rc env (Suc n) res"
proof -
  have "\<exists>e. outcome (env k) = Threw e \<and> is_object_with_message e \<and> rc + int k < MAX_RETRIES"
    if "k < Suc n" for k
  proof (cases k)
    case 0
    then show ?thesis using assms(1-3) by simp
  next
    case (Suc j)
    then have "j < n" using that by simp
    then obtain e' where "outcome (env (Suc j)) = Threw e'" "is_object_with_message e'"
      "rc + 1 + int j < MAX_RETRIES"
      using assms(4) unfolding probe_ends_at_def by blast
    then show ?thesis using Suc by (auto simp: algebra_simps)
  qed
  moreover have "rc + 1 + int n = rc + int (Suc n)" by simp
  ultimately show ?thesis
    using assms(4) unfolding probe_ends_at_def by (simp only:) simp
qed

lemma probe_shape:
  "\<exists>n. probe_ends_at u c rc env n (fst (checkDeploymentHealth u c rc env)) \<and>
       attempts (snd (checkDeploymentHealth u c rc env)) = Suc n \<and>
       timed (snd (checkDeploymentHealth u c rc env)) =
         alternating n (HttpGet u (or_default (timeoutMs c) 5000)) (Sleep RETRY_DELAY_MS)"
proof (induction u c rc env rule: checkDeploymentHealth.induct)
  case (1 u config retryCount env)
  show ?case
  proof (cases "outcome (env 0)")
    case (Responded st t)
    then have "probe_ends_at u config retryCount env 0 (fst (checkDeploymentHealth u config retryCount env))"
      by (simp add: probe_responded probe_ends_at_def)
    then show ?thesis using Responded
      by (intro exI[of _ 0]) (simp add: probe_responded attempts_def timed_def)
  next
    case (Threw e)
    show ?thesis
    proof (cases "is_object_with_message e \<and> retryCount < MAX_RETRIES")
      case True
      from 1[OF Threw True] obtain n where
        n: "probe_ends_at u config (retryCount + 1) (\<lambda>k. env (Suc k)) n
              (fst (checkDeploymentHealth u config (retryCount + 1) (\<lambda>k. env (Suc k))))"
           "attempts (snd (checkDeploymentHealth u config (retryCount + 1) (\<lambda>k. env (Suc k)))) = Suc n"
           "timed (snd (checkDeploymentHealth u config (retryCount + 1) (\<lambda>k. env (Suc k)))) =
              alternating n (HttpGet u (or_default (timeoutMs config) 5000)) (Sleep RETRY_DELAY_MS)"
        by blast
      have eq: "checkDeploymentHealth u config retryCount env =
        (fst (checkDeploymentHealth u config (retryCount + 1) (\<lambda>k. env (Suc k))),
         HttpGet u (or_default (timeoutMs config) 5000) # ConsoleLog (retry_notice retryCount e) #
         Sleep RETRY_DELAY_MS # snd (checkDeploymentHealth u config (retryCount + 1) (\<lambda>k. env (Suc k))))"
        using probe_retry[of env e retryCount u config] Threw True by blast
      have "probe_ends_at u config retryCount env (Suc n) (fst (checkDeploymentHealth u config retryCount env))"
        using probe_ends_at_Suc[of env e retryCount u config n, OF Threw _ _ n(1)] True by (simp add: eq)
      moreover have "attempts (snd (checkDeploymentHealth u config retryCount env)) = Suc (Suc n)"
        using n(2) by (simp add: eq attempts_def)
      moreover have "timed (snd (checkDeploymentHealth u config retryCount env)) =
          alternating (Suc n) (HttpGet u (or_default (timeoutMs config) 5000)) (Sleep RETRY_DELAY_MS)"
        using n(3) by (simp add: eq timed_def)
      ultimately show ?thesis by blast
    next
      case False
      then have "probe_ends_at u config retryCount env 0 (fst (checkDeploymentHealth u config retryCount env))"
        using Threw by (simp add: probe_terminal probe_ends_at_def)
      then show ?thesis using Threw False
        by (intro exI[of _ 0]) (simp add: probe_terminal attempts_def timed_def)
    qed
  qed
qed

section \<open>The prober on any retry count\<close>

lemma round_to_double_exact: "\<bar>x\<bar> < 2 ^ 53 \<Longrightarrow> round_to_double x = x"
  by (simp add: round_to_double_def)

lemma js_responded:
  "outcome (env 0) = Responded st t \<Longrightarrow>
   checkDeploymentHealth_js u c rc env = Some (checkDeploymentHealth u c rc' env)"
  by (subst checkDeploymentHealth_js.simps) (simp add: probe_responded response_result_def)

lemma js_terminal:
  "outcome (env 0) = Threw e \<Longrightarrow> \<not> (is_object_with_message e \<and> js_less rc MAX_RETRIES) \<Longrightarrow>
   checkDeploymentHealth_js u c rc env =
     Some (Inr (synthetic_result u (env 0) e), [HttpGet u (or_default (timeoutMs c) 5000)])"
  by (subst checkDeploymentHealth_js.simps) (auto simp: synthetic_result_def)

lemma js_retry:
  "outcome (env 0) = Threw e \<Longrightarrow> is_object_with_message e \<Longrightarrow> js_less rc MAX_RETRIES \<Longrightarrow>
   checkDeploymentHealth_js u c rc env =
     Option.bind (checkDeploymentHealth_js u c (js_add1 rc) (\<lambda>k. env (Suc k)))
       (\<lambda>(res, tr).
          Some (res,
                HttpGet u (or_default (timeoutMs c) 5000) #
                ConsoleLog (js_retry_notice rc e) # Sleep RETRY_DELAY_MS # tr))"
  by (subst checkDeploymentHealth_js.simps) simp

lemma js_agrees_on_exact_counts:
  "- (2 ^ 53) \<le> rc \<Longrightarrow>
   checkDeploymentHealth_js u c (Num rc) env = Some (checkDeploymentHealth u c rc env)"
proof (induction u c rc env rule: checkDeploymentHealth.induct)
  case (1 u config retryCount env)
  show ?case
  proof (cases "outcome (env 0)")
    case (Responded st t)
    then show ?thesis by (rule js_responded)
  next
    case (Threw e)
    show ?thesis
    proof (cases "is_object_with_message e \<and> retryCount < MAX_RETRIES")
      case True
      then have small: "\<bar>retryCount + 1\<bar> < 2 ^ 53"
        using "1.prems" by (simp add: MAX_RETRIES_def abs_if)
      have add: "js_add1 (Num retryCount) = Num (retryCount + 1)"
        by (simp add: round_to_double_exact[OF small])
      have notice: "js_retry_notice (Num retryCount) e = retry_notice retryCount e"
        unfolding js_retry_notice_def retry_notice_def add by simp
      have ih: "checkDeploymentHealth_js u config (Num (retryCount + 1)) (\<lambda>k. env (Suc k)) =
                Some (checkDeploymentHealth u config (retryCount + 1) (\<lambda>k. env (Suc k)))"
        using "1.IH"[OF Threw True] "1.prems" by simp
      show ?thesis
        using True Threw
        by (simp add: js_retry[of env e "Num retryCount" u config] notice ih
            round_to_double_exact[OF small]
            probe_retry[of env e retryCount u config] split: prod.splits)
    next
      case False
      then show ?thesis using Threw
        by (simp add: js_terminal[of env e "Num retryCount" u config]
            probe_terminal[of env e retryCount u config])
    qed
  qed
qed

lemma js_no_retry_at_bound:
  assumes "\<not> js_less rc MAX_RETRIES"
  shows "checkDeploymentHealth_js u c rc env = Some (checkDeploymentHealth u c MAX_RETRIES env)"
proof (cases "outcome (env 0)")
  case (Responded st t)
  then show ?thesis by (rule js_responded)
next
  case (Threw e)
  then show ?thesis using assms
    by (simp add: js_terminal[of env e rc u c] probe_terminal[of env e MAX_RETRIES u c])
qed

lemma never_advances_shift:
  "never_advances rc env \<Longrightarrow> never_advances (js_add1 rc) (\<lambda>k. env (Suc k))"
  unfolding never_advances_def by auto

lemma js_retries_forever_aux:
  assumes "checkDeploymentHealth_js u c rc env = Some y"
  shows "\<not> never_advances rc env"
proof (rule checkDeploymentHealth_js.raw_induct[where P = "\<lambda>u c rc env y. \<not> never_advances rc env", OF _ assms])
  fix f :: "string \<Rightarrow> DeploymentHealth \<Rightarrow> js_number \<Rightarrow> (nat \<Rightarrow> attempt) \<Rightarrow>
   ((thrown + HealthCheckResult) \<times> effect list) option"
  fix u1 c1 rc1 env1 y1
  assume IH: "\<And>u c rc env y. f u c rc env = Some y \<Longrightarrow> \<not> never_advances rc env"
  assume body: "(case outcome (env1 0) of
        Responded st end_ms \<Rightarrow>
          Some (Inr \<lparr>timestamp = iso_now (env1 0), url = u1, status = st,
                      healthy = (st = expectedStatus c1),
                      responseTime = Some (string_of_int (end_ms - start_ms (env1 0)) @ ''ms''),
                      error = None\<rparr>,
                [HttpGet u1 (or_default (timeoutMs c1) 5000)])
      | Threw e \<Rightarrow>
          if is_object_with_message e \<and> js_less rc1 MAX_RETRIES then
            Option.bind (f u1 c1 (js_add1 rc1) (\<lambda>k. env1 (Suc k)))
              (\<lambda>(res, tr).
                 Some (res,
                       HttpGet u1 (or_default (timeoutMs c1) 5000) #
                       ConsoleLog (js_retry_notice rc1 e) #
                       Sleep RETRY_DELAY_MS # tr))
          else
            Some (Inr \<lparr>timestamp = iso_now (env1 0), url = u1, status = 503, healthy = False,
                        responseTime = None, error = Some (error_text e)\<rparr>,
                  [HttpGet u1 (or_default (timeoutMs c1) 5000)])) = Some y1"
  show "\<not> never_advances rc1 env1"
  proof
    assume a: "never_advances rc1 env1"
    then obtain e where e: "outcome (env1 0) = Threw e" "is_object_with_message e"
      "js_less rc1 MAX_RETRIES"
      unfolding never_advances_def by blast
    from body e obtain y' where "f u1 c1 (js_add1 rc1) (\<lambda>k. env1 (Suc k)) = Some y'"
      by (auto simp: bind_eq_Some_conv)
    from IH[OF this] never_advances_shift[OF a] show False by blast
  qed
qed

lemma js_retries_forever:
  "never_advances rc env \<Longrightarrow> checkDeploymentHealth_js u c rc env = None"
  using js_retries_forever_aux[of u c rc env] by (cases "checkDeploymentHealth_js u c rc env") auto

lemma probe_cases:
  assumes "checkDeploymentHealth u c rc env = (res, tr)"
  obtains n where "probe_ends_at u c rc env n res" "attempts tr = Suc n"
    "timed tr = alternating n (HttpGet u (or_default (timeoutMs c) 5000)) (Sleep RETRY_DELAY_MS)"
  using probe_shape[of u c rc env] assms by auto

section \<open>Claims about the prober\<close>

text \<open>
  Claim C7, as amended. For every url, configuration and behaviour of the network, and
  for every retry count that is an integer from \<open>-2^53\<close> up, \<open>+Infinity\<close> or \<open>NaN\<close> (the
  default 0 and every count the function passes on are among them),
  \<open>checkDeploymentHealth\<close> never throws: the promise resolves with a result and is
  never rejected. It makes at least one request and at most one more than the retries
  still allowed, and the result is built from the last request: from its response when
  there is one, and otherwise the synthetic result with status 503, \<open>healthy = false\<close> and
  the text of the last failure.
\<close>

theorem checkDeploymentHealth_returns_on_exact_counts:
  assumes "retry_count_exact rc"
  shows "\<exists>r tr. checkDeploymentHealth_js u c rc env = Some (Inr r, tr) \<and>
          0 < attempts tr \<and>
          attempts tr \<le> (case rc of Num n \<Rightarrow> Suc (nat (MAX_RETRIES - n)) | _ \<Rightarrow> 1) \<and>
          (case outcome (env (attempts tr - 1)) of
             Responded st t \<Rightarrow>
               r = \<lparr>timestamp = iso_now (env (attempts tr - 1)), url = u, status = st,
                    healthy = (st = expectedStatus c),
                    responseTime =
                      Some (string_of_int (t - start_ms (env (attempts tr - 1))) @ ''ms''),
                    error = None\<rparr>
           | Threw e \<Rightarrow>
               r = \<lparr>timestamp = iso_now (env (attempts tr - 1)), url = u, status = 503,
                    healthy = False, responseTime = None, error = Some (error_text e)\<rparr>)"
proof -
  define m where "m = (case rc of Num n \<Rightarrow> n | _ \<Rightarrow> MAX_RETRIES)"
  have agree: "checkDeploymentHealth_js u c rc env = Some (checkDeploymentHealth u c m env)"
  proof (cases rc)
    case (Num n)
    then show ?thesis using assms js_agrees_on_exact_counts[of n u c env]
      by (simp add: m_def retry_count_exact_def)
  next
    case NegInfinity
    then show ?thesis using assms by (simp add: retry_count_exact_def)
  next
    case PosInfinity
    then show ?thesis using js_no_retry_at_bound[of rc u c env] by (simp add: m_def)
  next
    case NaN
    then show ?thesis using js_no_retry_at_bound[of rc u c env] by (simp add: m_def)
  qed
  have bound_eq: "(case rc of Num n \<Rightarrow> Suc (nat (MAX_RETRIES - n)) | _ \<Rightarrow> 1) =
                  Suc (nat (MAX_RETRIES - m))"
    by (cases rc) (simp_all add: m_def)
  obtain res tr where run: "checkDeploymentHealth u c m env = (res, tr)"
    by (cases "checkDeploymentHealth u c m env")
  from probe_cases[OF run] obtain n where
    n: "probe_ends_at u c m env n res" "attempts tr = Suc n" by blast
  have bound: "n \<le> nat (MAX_RETRIES - m)"
  proof (cases n)
    case 0
    then show ?thesis by simp
  next
    case (Suc j)
    then have "m + int j < MAX_RETRIES" using n(1) unfolding probe_ends_at_def by auto
    then show ?thesis using Suc by simp
  qed
  show ?thesis
  proof (cases "outcome (env n)")
    case (Responded st t)
    then have "res = Inr (response_result u c (env n) st t)"
      using n(1) unfolding probe_ends_at_def by simp
    then show ?thesis
      using agree run n(2) bound Responded unfolding bound_eq
      by (simp add: response_result_def)
  next
    case (Threw e)
    then have "res = Inr (synthetic_result u (env n) e)"
      using n(1) unfolding probe_ends_at_def by simp
    then show ?thesis
      using agree run n(2) bound Threw unfolding bound_eq
      by (simp add: synthetic_result_def)
  qed
qed

text \<open>The amended statement at retry count 0 and a target that refuses every connection.\<close>

theorem checkDeploymentHealth_returns_on_exact_counts_witness:
  "retry_count_exact (Num 0) \<and>
   (\<exists>r tr. checkDeploymentHealth_js ''http://localhost:3000'' example_config (Num 0) always_refused =
              Some (Inr r, tr) \<and>
            0 < attempts tr \<and> attempts tr \<le> 4 \<and>
            r = \<lparr>timestamp = ''2024-01-01T00:00:00.000Z'', url = ''http://localhost:3000'',
                 status = 503, healthy = False, responseTime = None,
                 error = Some ''connect ECONNREFUSED 127.0.0.1:3000''\<rparr>)"
proof -
  have h: "retry_count_exact (Num 0)" by (simp add: retry_count_exact_def)
  have o: "outcome (always_refused k) = Threw refused" for k by (simp add: always_refused_def)
  have t: "iso_now (always_refused k) = ''2024-01-01T00:00:00.000Z''" for k
    by (simp add: always_refused_def)
  have e: "error_text refused = ''connect ECONNREFUSED 127.0.0.1:3000''"
    by (simp add: refused_def)
  show ?thesis
    using h checkDeploymentHealth_returns_on_exact_counts[OF h, of "''http://localhost:3000''"
        example_config always_refused]
    by (simp add: o t e MAX_RETRIES_def)
qed

text \<open>
  The claim as the specification words it, for every retry count, fails at the retry
  counts \<open>-Infinity\<close> and \<open>-2^54\<close>, where \<open>retryCount + 1\<close> is \<open>retryCount\<close> again: against
  a target that refuses every connection the function retries forever and returns no
  result.
\<close>

theorem retries_forever_counterexample:
  "checkDeploymentHealth_js ''http://localhost:3000'' example_config NegInfinity always_refused = None \<and>
   checkDeploymentHealth_js ''http://localhost:3000'' example_config (Num (- 18014398509481984))
     always_refused = None"
proof -
  have o: "\<forall>k. \<exists>e. outcome (always_refused k) = Threw e \<and> is_object_with_message e"
    by (simp add: always_refused_def refused_def)
  have a: "js_add1 (Num (- 18014398509481984)) = Num (- 18014398509481984)"
    by code_simp
  have "never_advances NegInfinity always_refused"
    unfolding never_advances_def using o by simp
  moreover have "never_advances (Num (- 18014398509481984)) always_refused"
    unfolding never_advances_def using o a by (simp add: MAX_RETRIES_def)
  ultimately show ?thesis by (simp add: js_retries_forever)
qed



text \<open>
  Claim C1, as amended. When every invocation throws an object with a \<open>message\<close> (as
  every failure of axios is), a probe started with retry count 0 makes exactly 4 requests,
  the first one and \<open>MAX_RETRIES = 3\<close> retries, with one wait of 1000 ms between each two,
  and then resolves with status 503, \<open>healthy = false\<close> and \<open>error\<close> set to the message
  of the last failure.
\<close>

theorem four_attempts_when_all_fail:
  assumes "\<forall>k\<le>3. \<exists>e. outcome (env k) = Threw e \<and> is_object_with_message e"
  shows "\<exists>e tr. checkDeploymentHealth u c 0 env =
            (Inr \<lparr>timestamp = iso_now (env 3), url = u, status = 503, healthy = False,
                  responseTime = None, error = Some (error_text e)\<rparr>, tr) \<and>
          outcome (env 3) = Threw e \<and> attempts tr = 4 \<and>
          timed tr =
            [HttpGet u (or_default (timeoutMs c) 5000), Sleep 1000,
             HttpGet u (or_default (timeoutMs c) 5000), Sleep 1000,
             HttpGet u (or_default (timeoutMs c) 5000), Sleep 1000,
             HttpGet u (or_default (timeoutMs c) 5000)]"
proof -
  obtain res tr where run: "checkDeploymentHealth u c 0 env = (res, tr)"
    by (cases "checkDeploymentHealth u c 0 env")
  from probe_cases[OF run] obtain n where
    n: "probe_ends_at u c 0 env n res" "attempts tr = Suc n"
       "timed tr = alternating n (HttpGet u (or_default (timeoutMs c) 5000)) (Sleep RETRY_DELAY_MS)"
    by blast
  have le: "n \<le> 3"
  proof (rule ccontr)
    assume "\<not> n \<le> 3"
    then have "3 < n" by simp
    then have "0 + int 3 < MAX_RETRIES" using n(1) unfolding probe_ends_at_def by blast
    then show False by (simp add: MAX_RETRIES_def)
  qed
  then obtain e where e: "outcome (env n) = Threw e" "is_object_with_message e"
    using assms by blast
  then have stop: "\<not> (0 + int n < MAX_RETRIES)" and res: "res = Inr (synthetic_result u (env n) e)"
    using n(1) unfolding probe_ends_at_def by auto
  from stop le have n3: "n = 3" by (simp add: MAX_RETRIES_def)
  have "alternating 3 g s = [g, s, g, s, g, s, g]" for g s
    by (simp add: numeral_3_eq_3)
  then show ?thesis
    using run res e n(2,3) n3 by (simp add: synthetic_result_def RETRY_DELAY_MS_def)
qed

text \<open>The amended statement at a target that refuses every connection.\<close>

theorem four_attempts_when_all_fail_witness:
  "outcome (always_refused 3) = Threw refused \<and> is_object_with_message refused \<and>
   (\<exists>e tr. checkDeploymentHealth ''http://localhost:3000'' example_config 0 always_refused =
            (Inr \<lparr>timestamp = iso_now (always_refused 3), url = ''http://localhost:3000'',
                  status = 503, healthy = False,
                  responseTime = None, error = Some (error_text e)\<rparr>, tr) \<and>
          outcome (always_refused 3) = Threw e \<and> attempts tr = 4 \<and>
          timed tr =
            [HttpGet ''http://localhost:3000'' 5000, Sleep 1000,
             HttpGet ''http://localhost:3000'' 5000, Sleep 1000,
             HttpGet ''http://localhost:3000'' 5000, Sleep 1000,
             HttpGet ''http://localhost:3000'' 5000])"
proof -
  have h: "\<forall>k\<le>3. \<exists>e. outcome (always_refused k) = Threw e \<and> is_object_with_message e"
    by (simp add: always_refused_def refused_def)
  have t: "or_default (timeoutMs example_config) 5000 = 5000"
    by (simp add: example_config_def or_default_def)
  have r: "outcome (always_refused 3) = Threw refused \<and> is_object_with_message refused"
    by (simp add: always_refused_def refused_def)
  show ?thesis
    using r four_attempts_when_all_fail[OF h, of "''http://localhost:3000''" example_config]
    unfolding t by blast
qed

text \<open>
  The claim as the specification words it, with 3 attempts in total, fails at that target:
  the code makes 4.
\<close>

theorem three_attempts_counterexample:
  "attempts (snd (checkDeploymentHealth ''http://localhost:3000'' example_config 0 always_refused)) \<noteq> 3 \<and>
   attempts (snd (checkDeploymentHealth ''http://localhost:3000'' example_config 0 always_refused)) = 4"
  by code_simp

text \<open>
  Claim C10. When an invocation throws, a retry follows exactly when the thrown value is a
  non-null object with a \<open>message\<close> property and the retry count is below the bound.
  Otherwise the probe ends at once, with this single request and no wait, and resolves
  with status 503, \<open>healthy = false\<close> and \<open>error\<close> set to the message of a thrown
  \<open>Error\<close>, to a thrown string itself, to the message of another object, or to
  \<open>Unknown error\<close>.
\<close>

theorem retry_only_object_with_message:
  assumes "outcome (env 0) = Threw e"
  shows "(1 < attempts (snd (checkDeploymentHealth u c rc env))) =
           (is_object_with_message e \<and> rc < MAX_RETRIES) \<and>
         (is_object_with_message e \<and> rc < MAX_RETRIES \<or>
          checkDeploymentHealth u c rc env =
            (Inr \<lparr>timestamp = iso_now (env 0), url = u, status = 503, healthy = False,
                  responseTime = None,
                  error = Some (case e of ErrorObj m r cd \<Rightarrow> m
                                | ThrownString s \<Rightarrow> s
                                | PlainObj (Some m) r cd \<Rightarrow> m
                                | PlainObj None r cd \<Rightarrow> ''Unknown error''
                                | ThrownOther \<Rightarrow> ''Unknown error'')\<rparr>,
             [HttpGet u (or_default (timeoutMs c) 5000)]))"
proof (cases "is_object_with_message e \<and> rc < MAX_RETRIES")
  case True
  obtain n where "attempts (snd (checkDeploymentHealth u c (rc + 1) (\<lambda>k. env (Suc k)))) = Suc n"
    using probe_shape[of u c "rc + 1" "\<lambda>k. env (Suc k)"] by blast
  then have "1 < attempts (snd (checkDeploymentHealth u c rc env))"
    using probe_retry[of env e rc u c] assms True by (simp add: attempts_def)
  then show ?thesis using True by simp
next
  case False
  have shown: "error_text e = (case e of ErrorObj m r cd \<Rightarrow> m
                                | ThrownString s \<Rightarrow> s
                                | PlainObj (Some m) r cd \<Rightarrow> m
                                | PlainObj None r cd \<Rightarrow> ''Unknown error''
                                | ThrownOther \<Rightarrow> ''Unknown error'')"
    by (cases e rule: error_text.cases) simp_all
  have "checkDeploymentHealth u c rc env =
          (Inr (synthetic_result u (env 0) e), [HttpGet u (or_default (timeoutMs c) 5000)])"
    using probe_terminal[of env e rc u c] assms False by blast
  then show ?thesis using False shown by (simp add: synthetic_result_def attempts_def)
qed

text \<open>The statement at a request that throws a string.\<close>

theorem retry_only_object_with_message_witness:
  "outcome (throws_string 0) = Threw (ThrownString ''boom'') \<and>
   \<not> 1 < attempts (snd (checkDeploymentHealth ''http://localhost:3000'' example_config 0 throws_string)) \<and>
   checkDeploymentHealth ''http://localhost:3000'' example_config 0 throws_string =
     (Inr \<lparr>timestamp = ''2024-01-01T00:00:00.000Z'', url = ''http://localhost:3000'', status = 503,
           healthy = False, responseTime = None, error = Some ''boom''\<rparr>,
      [HttpGet ''http://localhost:3000'' 5000])"
proof -
  have h: "outcome (throws_string 0) = Threw (ThrownString ''boom'')"
    by (simp add: throws_string_def)
  show ?thesis
    using h retry_only_object_with_message[of throws_string "ThrownString ''boom''"
        "''http://localhost:3000''" example_config 0]
    by (simp add: throws_string_def example_config_def or_default_def attempts_def)
qed

text \<open>
  Claim C8, as amended. The result of a probe never has a property \<open>responseTimeMs\<close>.
  When the last invocation of the probe received a response, the property \<open>responseTime\<close>
  holds a string, the decimal number of elapsed milliseconds followed by \<open>ms\<close>; when the
  probe ended in a failure, the property is absent.
\<close>

theorem responseTime_is_text:
  assumes "checkDeploymentHealth u c rc env = (res, tr)"
  shows "property_of ''responseTimeMs'' res = None \<and>
         property_of ''responseTime'' res =
           (case outcome (env (attempts tr - 1)) of
              Responded st t \<Rightarrow>
                Some (JString (string_of_int (t - start_ms (env (attempts tr - 1))) @ ''ms''))
            | Threw e \<Rightarrow> None)"
proof -
  from probe_cases[OF assms] obtain n where
    n: "probe_ends_at u c rc env n res" "attempts tr = Suc n" by blast
  show ?thesis
  proof (cases "outcome (env n)")
    case (Responded st t)
    then have "res = Inr (response_result u c (env n) st t)"
      using n(1) unfolding probe_ends_at_def by simp
    then show ?thesis using Responded n(2)
      by (simp add: property_of_def properties_def response_result_def)
  next
    case (Threw e)
    then have "res = Inr (synthetic_result u (env n) e)"
      using n(1) unfolding probe_ends_at_def by simp
    then show ?thesis using Threw n(2)
      by (simp add: property_of_def properties_def synthetic_result_def)
  qed
qed

text \<open>The amended statement at a target that answers 200 after 12 ms.\<close>

theorem responseTime_is_text_witness:
  "checkDeploymentHealth ''http://localhost:3000'' example_config 0 (answers 200) =
     (Inr \<lparr>timestamp = ''2024-01-01T00:00:00.000Z'', url = ''http://localhost:3000'', status = 200,
           healthy = True, responseTime = Some ''12ms'', error = None\<rparr>,
      [HttpGet ''http://localhost:3000'' 5000]) \<and>
   property_of ''responseTime''
     (Inr \<lparr>timestamp = ''2024-01-01T00:00:00.000Z'', url = ''http://localhost:3000'', status = 200,
           healthy = True, responseTime = Some ''12ms'', error = None\<rparr>) = Some (JString ''12ms'')"
proof -
  have h: "checkDeploymentHealth ''http://localhost:3000'' example_config 0 (answers 200) =
     (Inr \<lparr>timestamp = ''2024-01-01T00:00:00.000Z'', url = ''http://localhost:3000'', status = 200,
           healthy = True, responseTime = Some ''12ms'', error = None\<rparr>,
      [HttpGet ''http://localhost:3000'' 5000])"
    by code_simp
  have s: "string_of_int 12 = ''12''" by code_simp
  show ?thesis
    using h responseTime_is_text[OF h] by (simp add: attempts_def answers_def s)
qed

text \<open>
  The claim as the specification words it fails there: no property \<open>responseTimeMs\<close>
  holds the integer 12; the elapsed time is the string \<open>12ms\<close> under \<open>responseTime\<close>.
\<close>

theorem responseTimeMs_counterexample:
  "property_of ''responseTimeMs''
     (fst (checkDeploymentHealth ''http://localhost:3000'' example_config 0 (answers 200))) \<noteq>
     Some (JNumber 12) \<and>
   property_of ''responseTime''
     (fst (checkDeploymentHealth ''http://localhost:3000'' example_config 0 (answers 200))) =
     Some (JString ''12ms'')"
  by code_simp

section \<open>Claims about the monitor\<close>

lemma logHealthCheck_state:
  "fst (logHealthCheck s h) =
     (if healthy h then s\<lparr>healthyStreak := healthyStreak s + 1, unhealthyStreak := 0\<rparr>
      else s\<lparr>unhealthyStreak := unhealthyStreak s + 1, healthyStreak := 0\<rparr>)"
  by (simp add: logHealthCheck_def Let_def)

lemma process_results_snoc:
  "process_results s (hs @ [h]) = fst (logHealthCheck (process_results s hs) h)"
  by (simp add: process_results_def)

lemma process_results_healthy:
  "\<forall>h\<in>set hs. healthy h \<Longrightarrow>
   healthyStreak (process_results s hs) = healthyStreak s + int (length hs) \<and>
   unhealthyStreak (process_results s hs) = (if hs = [] then unhealthyStreak s else 0)"
proof (induction hs rule: rev_induct)
  case Nil
  show ?case by (simp add: process_results_def)
next
  case (snoc h hs)
  then show ?case by (simp add: process_results_snoc logHealthCheck_state)
qed

text \<open>
  Claim C4. Starting from a state with both streak counters 0, after \<open>n\<close> consecutive
  healthy results \<open>healthyStreak = n\<close> and \<open>unhealthyStreak = 0\<close>; the first unhealthy
  result after such a run sets \<open>healthyStreak\<close> to 0 and \<open>unhealthyStreak\<close> to 1.
\<close>

theorem streaks_after_healthy_run:
  assumes "healthyStreak s = 0" and "unhealthyStreak s = 0"
    and "\<forall>h\<in>set hs. healthy h" and "\<not> healthy bad"
  shows "healthyStreak (process_results s hs) = int (length hs) \<and>
         unhealthyStreak (process_results s hs) = 0 \<and>
         healthyStreak (process_results s (hs @ [bad])) = 0 \<and>
         unhealthyStreak (process_results s (hs @ [bad])) = 1"
  using assms process_results_healthy[OF assms(3), of s]
  by (simp add: process_results_snoc logHealthCheck_state)

text \<open>The statement at a new session, three healthy results and an unhealthy one.\<close>

theorem streaks_after_healthy_run_witness:
  "healthyStreak fresh_session = 0 \<and> unhealthyStreak fresh_session = 0 \<and>
   healthy ok_result \<and> \<not> healthy bad_result \<and>
   healthyStreak (process_results fresh_session [ok_result, ok_result, ok_result]) = 3 \<and>
   unhealthyStreak (process_results fresh_session [ok_result, ok_result, ok_result]) = 0 \<and>
   healthyStreak (process_results fresh_session ([ok_result, ok_result, ok_result] @ [bad_result])) = 0 \<and>
   unhealthyStreak (process_results fresh_session ([ok_result, ok_result, ok_result] @ [bad_result])) = 1"
proof -
  have h1: "healthyStreak fresh_session = 0" and h2: "unhealthyStreak fresh_session = 0"
    by (simp_all add: fresh_session_def setupHealthMonitoring_def Let_def)
  have h3: "\<forall>h\<in>set [ok_result, ok_result, ok_result]. healthy h"
    by (simp add: ok_result_def)
  have h4: "\<not> healthy bad_result" by (simp add: bad_result_def)
  have h5: "healthy ok_result" by (simp add: ok_result_def)
  show ?thesis
    using h1 h2 h4 h5 streaks_after_healthy_run[OF h1 h2 h3 h4] by simp
qed

lemma step_streaks:
  assumes "0 \<le> healthyStreak s" "0 \<le> unhealthyStreak s" "healthyStreak s = 0 \<or> unhealthyStreak s = 0"
  shows "0 \<le> healthyStreak (step s ev) \<and> 0 \<le> unhealthyStreak (step s ev) \<and>
         (healthyStreak (step s ev) = 0 \<or> unhealthyStreak (step s ev) = 0)"
proof (cases ev)
  case TimerFires
  then show ?thesis using assms by simp
next
  case (ProbeCompletes env)
  then show ?thesis using assms
    by (auto simp: logHealthCheck_def Let_def split: prod.splits sum.splits)
next
  case Cancel
  then show ?thesis using assms by (simp add: cancel_def)
qed

lemma run_streaks:
  assumes "0 \<le> healthyStreak s" "0 \<le> unhealthyStreak s" "healthyStreak s = 0 \<or> unhealthyStreak s = 0"
  shows "0 \<le> healthyStreak (run s evs) \<and> 0 \<le> unhealthyStreak (run s evs) \<and>
         (healthyStreak (run s evs) = 0 \<or> unhealthyStreak (run s evs) = 0)"
  using assms
proof (induction evs arbitrary: s)
  case Nil
  then show ?case by (simp add: run_def)
next
  case (Cons ev evs)
  have "run s (ev # evs) = run (step s ev) evs" by (simp add: run_def)
  then show ?case using Cons.IH[of "step s ev"] step_streaks[OF Cons.prems, of ev] by simp
qed

text \<open>
  Claim C5. In every state that a session reaches from its start, through any sequence of
  timer ticks, probe completions and cancellations, both streak counters are at least 0
  and at most one of them is nonzero; and each processed result increments one counter
  and resets the other to 0.
\<close>

theorem streaks_invariant:
  "0 \<le> healthyStreak (run (setupHealthMonitoring u c now cwd ex) evs) \<and>
   0 \<le> unhealthyStreak (run (setupHealthMonitoring u c now cwd ex) evs) \<and>
   (healthyStreak (run (setupHealthMonitoring u c now cwd ex) evs) = 0 \<or>
    unhealthyStreak (run (setupHealthMonitoring u c now cwd ex) evs) = 0) \<and>
   healthyStreak (fst (logHealthCheck s h)) = (if healthy h then healthyStreak s + 1 else 0) \<and>
   unhealthyStreak (fst (logHealthCheck s h)) = (if healthy h then 0 else unhealthyStreak s + 1)"
proof -
  have "0 \<le> healthyStreak (setupHealthMonitoring u c now cwd ex)"
    "0 \<le> unhealthyStreak (setupHealthMonitoring u c now cwd ex)"
    "healthyStreak (setupHealthMonitoring u c now cwd ex) = 0 \<or>
     unhealthyStreak (setupHealthMonitoring u c now cwd ex) = 0"
    by (simp_all add: setupHealthMonitoring_def Let_def)
  from run_streaks[OF this, of evs] show ?thesis
    by (simp add: logHealthCheck_state)
qed

text \<open>The statement at a session whose first probe succeeds and whose second fails.\<close>

theorem streaks_invariant_witness:
  "0 \<le> healthyStreak (run fresh_session [ProbeCompletes (answers 200), TimerFires, ProbeCompletes always_refused]) \<and>
   0 \<le> unhealthyStreak (run fresh_session [ProbeCompletes (answers 200), TimerFires, ProbeCompletes always_refused]) \<and>
   (healthyStreak (run fresh_session [ProbeCompletes (answers 200), TimerFires, ProbeCompletes always_refused]) = 0 \<or>
    unhealthyStreak (run fresh_session [ProbeCompletes (answers 200), TimerFires, ProbeCompletes always_refused]) = 0) \<and>
   healthyStreak (fst (logHealthCheck fresh_session ok_result)) = 1 \<and>
   unhealthyStreak (fst (logHealthCheck fresh_session ok_result)) = 0"
proof -
  have f: "healthyStreak fresh_session = 0"
    by (simp add: fresh_session_def setupHealthMonitoring_def Let_def)
  have k: "healthy ok_result" by (simp add: ok_result_def)
  show ?thesis
    using f k streaks_invariant[of "''http://localhost:3000''" example_config
        "''2024-01-01T00:00:00.000Z''" "''/srv/app''" False
        "[ProbeCompletes (answers 200), TimerFires, ProbeCompletes always_refused]"
        fresh_session ok_result]
    unfolding fresh_session_def[symmetric] by simp
qed

lemma logHealthCheck_console:
  "console_of (snd (logHealthCheck s h)) =
     (if healthy h then
        (if healthyStreak s + 1 = 1 then [ConsoleLog (passed_notice h)]
         else if (healthyStreak s + 1) mod 5 = 0 then [ConsoleLog (stable_notice (healthyStreak s + 1))]
         else [])
      else
        ConsoleError (failed_notice h) #
        (if 3 \<le> unhealthyStreak s + 1 then [ConsoleError (alert_notice (unhealthyStreak s + 1))]
         else []))"
  by (simp add: logHealthCheck_def Let_def console_of_def)

text \<open>
  Claim C6. For a processed result in a reachable state (\<open>healthyStreak\<close> not negative):
  if it is healthy, one success notice is printed exactly when the updated
  \<open>healthyStreak\<close> is 1 (the notice that the check passed) or a positive multiple of 5 (the
  notice that the check is stable), and nothing is printed on the error stream; if it is
  unhealthy, the failure notice is printed every time, followed by the alert exactly when
  the updated \<open>unhealthyStreak\<close> is at least 3, on every such result.
\<close>

theorem console_policy:
  assumes "0 \<le> healthyStreak s" and "logHealthCheck s h = (s1, out)"
  shows "console_of out =
     (if healthy h then
        (if healthyStreak s1 = 1 \<or> (0 < healthyStreak s1 \<and> 5 dvd healthyStreak s1)
         then [ConsoleLog (if healthyStreak s1 = 1 then passed_notice h
                           else stable_notice (healthyStreak s1))]
         else [])
      else
        ConsoleError (failed_notice h) #
        (if 3 \<le> unhealthyStreak s1 then [ConsoleError (alert_notice (unhealthyStreak s1))]
         else []))"
proof -
  have s1: "s1 = fst (logHealthCheck s h)" and out: "out = snd (logHealthCheck s h)"
    using assms(2) by simp_all
  show ?thesis
  proof (cases "healthy h")
    case True
    then have hs: "healthyStreak s1 = healthyStreak s + 1"
      by (simp add: s1 logHealthCheck_state)
    then have pos: "0 < healthyStreak s1" using assms(1) by simp
    have "(healthyStreak s1 mod 5 = 0) = (5 dvd healthyStreak s1)"
      by (simp add: dvd_eq_mod_eq_0)
    then show ?thesis using True hs pos
      unfolding out logHealthCheck_console by auto
  next
    case False
    then have "unhealthyStreak s1 = unhealthyStreak s + 1"
      by (simp add: s1 logHealthCheck_state)
    then show ?thesis using False
      unfolding out logHealthCheck_console by simp
  qed
qed

text \<open>
  The statement at the fifth healthy result in a row and at the third unhealthy one.
\<close>

theorem console_policy_witness:
  "0 \<le> healthyStreak (fresh_session\<lparr>healthyStreak := 4\<rparr>) \<and>
   console_of (snd (logHealthCheck (fresh_session\<lparr>healthyStreak := 4\<rparr>) ok_result)) =
     [ConsoleLog (stable_notice 5)] \<and>
   console_of (snd (logHealthCheck (fresh_session\<lparr>unhealthyStreak := 2\<rparr>) bad_result)) =
     [ConsoleError (failed_notice bad_result), ConsoleError (alert_notice 3)]"
proof -
  have f: "healthyStreak fresh_session = 0"
    by (simp add: fresh_session_def setupHealthMonitoring_def Let_def)
  have h1: "0 \<le> healthyStreak (fresh_session\<lparr>healthyStreak := 4\<rparr>)" by simp
  have h1': "0 \<le> healthyStreak (fresh_session\<lparr>unhealthyStreak := 2\<rparr>)" by (simp add: f)
  have h2: "logHealthCheck sx hx = (fst (logHealthCheck sx hx), snd (logHealthCheck sx hx))"
    for sx hx by simp
  have k: "healthy ok_result" "\<not> healthy bad_result"
    by (simp_all add: ok_result_def bad_result_def)
  show ?thesis
    using k console_policy[OF h1 h2, of ok_result] console_policy[OF h1' h2, of bad_result]
    by (simp add: logHealthCheck_state)
qed










section \<open>The retry predicate of the API call\<close>

text \<open>
  Claim C9. The API-call path is to retry a failed request whose error carries the code
  \<open>ECONNRESET\<close>, and its retry guard names that code. The guard first requires
  \<open>'response' in error\<close>. A connection reset as axios 1.x reports it has no \<open>response\<close>
  property: \<open>makeVercelApiCall\<close> makes one request and throws at once, without a retry.
  The same reset with a \<open>response\<close> property that is \<open>undefined\<close>, as axios 0.x reports
  it, is retried three times, four requests in all.
\<close>

theorem reset_without_response_not_retried:
  "retryable_per_spec reset_error \<and>
   makeVercelApiCall (Some ''secret'') ''https://api.vercel.com/v13/deployments'' POST None 0
       always_reset =
     (Inl (ErrorObj ''socket hang up'' None None),
      [ApiRequest POST ''https://api.vercel.com/v13/deployments'' None ''secret'']) \<and>
   attempts (snd (makeVercelApiCall (Some ''secret'') ''https://api.vercel.com/v13/deployments''
                    POST None 0 always_reset_undefined_response)) = 4"
  by code_simp

end
